theory Spec2Isabelle
  imports Complex_Main "HOL-Library.Sublist"
begin

section \<open>The purchase modal (PurchaseModal, src/unnamed/part\_000)\<close>

subsection \<open>Values the component handles\<close>

text \<open>
  What \<^verbatim>\<open>setError\<close> receives is a React node: \<^verbatim>\<open>null\<close>, or a fragment of text and
  links. A node is a small tree; \<^verbatim>\<open>null\<close> is \<open>None\<close> of \<open>react_node option\<close>.
  JSX trims the line breaks and indentation around a text line and joins wrapped
  lines with one blank, and \<^verbatim>\<open>{" "}\<close> is a child of its own.
\<close>

datatype react_node =
    Text string
  | Anchor string "react_node list"
  | Fragment "react_node list"

text \<open>The fragment of lines 84 to 87.\<close>

definition sign_in_message :: react_node where
  "sign_in_message =
     Fragment
      [Text ''An Ubuntu One account with this email address exists. Please'',
       Text '' '',
       Anchor ''/login'' [Text ''sign in''],
       Text '' to your account first.'']"

text \<open>The fragment of lines 101 to 106.\<close>

definition unknown_error_message :: react_node where
  "unknown_error_message =
     Fragment
      [Text ''Sorry, there was an unknown error with your credit card. Check the details and try again. Contact'',
       Text '' '',
       Anchor ''https://ubuntu.com/contact-us'' [Text ''Canonical sales''],
       Text '' '',
       Text ''if the problem persists.'']"

text \<open>
  \<^verbatim>\<open>userInfo?.customerInfo?.defaultPaymentMethod\<close>: each link of the chain may be
  absent (\<^verbatim>\<open>undefined\<close> or \<^verbatim>\<open>null\<close>, here \<open>None\<close>). The hook's data is
  \<^verbatim>\<open>undefined\<close> until the customer information has been fetched. A payment method
  that is present is an object, of a type \<open>'p\<close> left open, and so is truthy.
\<close>

record 'p customer_info =
  defaultPaymentMethod :: "'p option"

record 'p user_info =
  customerInfo :: "'p customer_info option"

definition default_payment_method :: "'p user_info option \<Rightarrow> 'p option" where
  "default_payment_method userInfo =
     (case userInfo of
        None \<Rightarrow> None
      | Some u \<Rightarrow>
          (case customerInfo u of
             None \<Rightarrow> None
           | Some c \<Rightarrow> defaultPaymentMethod c))"

text \<open>
  The \<^verbatim>\<open>product\<close> property and the object built from it for the analytics event
  (lines 56 to 61). A JavaScript number is a \<open>real\<close> here (the rounding of a double
  is not modelled), and \<^verbatim>\<open>undefined / 100\<close>, which is \<^verbatim>\<open>NaN\<close>, is \<open>None\<close>.
\<close>

record price =
  price_value :: "real option"

record product =
  product_id :: "string option"
  product_name :: "string option"
  product_price :: "price option"

record ga_product =
  ga_id :: "string option"
  ga_name :: "string option"
  ga_price :: "real option"
  ga_quantity :: real

record 'm props =
  product :: "product option"
  quantity :: real
  marketplace :: 'm

definition GAFriendlyProduct :: "('m, 'z) props_scheme \<Rightarrow> ga_product" where
  "GAFriendlyProduct P =
     \<lparr>ga_id = Option.bind (product P) product_id,
      ga_name = Option.bind (product P) product_name,
      ga_price =
        map_option (\<lambda>v. v / 100)
          (Option.bind (Option.bind (product P) product_price) price_value),
      ga_quantity = quantity P\<rparr>"

text \<open>
  The argument of \<^verbatim>\<open>mutate\<close> (line 67), the data of a successful registration,
  of which the component reads \<^verbatim>\<open>accountId\<close> only, and the value a failed
  registration is rejected with: an \<^verbatim>\<open>Error\<close> with its message, or any other
  JavaScript value. The message of an \<^verbatim>\<open>Error\<close> is the error code the component
  compares and classifies.
\<close>

record ('f, 'm) variables =
  formData :: 'f
  marketplace_var :: 'm

record 'a response =
  accountId :: 'a

datatype js_value =
    JsString string
  | JsUndefined
  | JsNull
  | JsObject "(string \<times> string) list"

datatype thrown =
    ErrorInstance string
  | NonError js_value

fun instanceof_Error :: "thrown \<Rightarrow> bool" where
  "instanceof_Error (ErrorInstance m) = True"
| "instanceof_Error (NonError v) = False"

datatype 'd outcome =
    Resolved 'd
  | Rejected thrown

text \<open>The object passed to \<^verbatim>\<open>getErrorMessage\<close> (lines 90 to 93).\<close>

record error_payload =
  message :: string
  code :: string

subsection \<open>State and calls\<close>

text \<open>
  Every call the component makes out of its own body, in the order made. The list is
  the observable behaviour of a run: what was reported, tracked and requested, and
  how often.
\<close>

datatype ('a, 'u, 'f, 'm) effect =
    SetError "react_node option"
  | SetStep nat
  | CheckoutEvent ga_product string
  | Mutate "('f, 'm) variables"
  | AssignWindowAccountId 'a
  | SetQueryData string 'u
  | InvalidateQueries string
  | CaptureException thrown
  | SetSubmitting bool

text \<open>
  The query client is a keyed cache with a set and an invalidate operation. An entry
  holds its data and whether it has been invalidated (and so is refetched when next
  used). Keys are the plain strings the component uses.
\<close>

record 'u query =
  query_data :: 'u
  isInvalidated :: bool

text \<open>
  The state the component reads and writes: its two \<^verbatim>\<open>useState\<close> cells, the
  \<^verbatim>\<open>accountId\<close> property of \<^verbatim>\<open>window\<close>, the query cache, the form's submitting flag
  (behind \<^verbatim>\<open>actions.setSubmitting\<close>), and the calls made so far.
\<close>

record ('a, 'u, 'f, 'm) modal_state =
  error :: "react_node option"
  step :: nat
  window_accountId :: 'a
  queryClient :: "string \<rightharpoonup> 'u query"
  isSubmitting :: bool
  effects :: "('a, 'u, 'f, 'm) effect list"

definition emit ::
  "('a, 'u, 'f, 'm) effect \<Rightarrow> ('a, 'u, 'f, 'm) modal_state \<Rightarrow> ('a, 'u, 'f, 'm) modal_state" where
  "emit e s = s\<lparr>effects := effects s @ [e]\<rparr>"

definition setError ::
  "react_node option \<Rightarrow> ('a, 'u, 'f, 'm) modal_state \<Rightarrow> ('a, 'u, 'f, 'm) modal_state" where
  "setError v s = emit (SetError v) (s\<lparr>error := v\<rparr>)"

definition setStep ::
  "nat \<Rightarrow> ('a, 'u, 'f, 'm) modal_state \<Rightarrow> ('a, 'u, 'f, 'm) modal_state" where
  "setStep n s = emit (SetStep n) (s\<lparr>step := n\<rparr>)"

definition checkoutEvent ::
  "ga_product \<Rightarrow> string \<Rightarrow> ('a, 'u, 'f, 'm) modal_state \<Rightarrow> ('a, 'u, 'f, 'm) modal_state" where
  "checkoutEvent p stage s = emit (CheckoutEvent p stage) s"

definition mutate ::
  "('f, 'm) variables \<Rightarrow> ('a, 'u, 'f, 'm) modal_state \<Rightarrow> ('a, 'u, 'f, 'm) modal_state" where
  "mutate vars s = emit (Mutate vars) s"

definition assign_window_accountId ::
  "'a \<Rightarrow> ('a, 'u, 'f, 'm) modal_state \<Rightarrow> ('a, 'u, 'f, 'm) modal_state" where
  "assign_window_accountId a s = emit (AssignWindowAccountId a) (s\<lparr>window_accountId := a\<rparr>)"

definition setQueryData ::
  "string \<Rightarrow> 'u \<Rightarrow> ('a, 'u, 'f, 'm) modal_state \<Rightarrow> ('a, 'u, 'f, 'm) modal_state" where
  "setQueryData k v s =
     emit (SetQueryData k v)
       (s\<lparr>queryClient := (queryClient s)(k \<mapsto> \<lparr>query_data = v, isInvalidated = False\<rparr>)\<rparr>)"

definition invalidateQueries ::
  "string \<Rightarrow> ('a, 'u, 'f, 'm) modal_state \<Rightarrow> ('a, 'u, 'f, 'm) modal_state" where
  "invalidateQueries k s =
     emit (InvalidateQueries k)
       (s\<lparr>queryClient :=
            (case queryClient s k of
               None \<Rightarrow> queryClient s
             | Some q \<Rightarrow> (queryClient s)(k \<mapsto> q\<lparr>isInvalidated := True\<rparr>))\<rparr>)"

definition captureException ::
  "thrown \<Rightarrow> ('a, 'u, 'f, 'm) modal_state \<Rightarrow> ('a, 'u, 'f, 'm) modal_state" where
  "captureException e s = emit (CaptureException e) s"

definition setSubmitting ::
  "bool \<Rightarrow> ('a, 'u, 'f, 'm) modal_state \<Rightarrow> ('a, 'u, 'f, 'm) modal_state" where
  "setSubmitting b s = emit (SetSubmitting b) (s\<lparr>isSubmitting := b\<rparr>)"

subsection \<open>The component\<close>

text \<open>
  Lines 39 to 43: the initial values of the two state cells. What the rest of the
  state is when the modal opens is the environment's (\<open>env\<close>).
\<close>

definition initial_step :: "'p user_info option \<Rightarrow> nat" where
  "initial_step userInfo =
     (case default_payment_method userInfo of Some pm \<Rightarrow> 2 | None \<Rightarrow> 1)"

definition PurchaseModal_mount ::
  "('a, 'u, 'f, 'm) modal_state \<Rightarrow> 'p user_info option \<Rightarrow> ('a, 'u, 'f, 'm) modal_state" where
  "PurchaseModal_mount env userInfo = env\<lparr>error := None, step := initial_step userInfo\<rparr>"


text \<open>
  Lines 69 to 79. \<^verbatim>\<open>getUserInfoFromVariables\<close> is imported from the utilities and is
  a parameter here (\<open>gUI\<close>).
\<close>

definition onSuccess ::
  "(('a, 'r) response_scheme \<Rightarrow> 'f \<Rightarrow> 'u) \<Rightarrow> ('a, 'r) response_scheme \<Rightarrow> ('f, 'm) variables \<Rightarrow>
   ('a, 'u, 'f, 'm) modal_state \<Rightarrow> ('a, 'u, 'f, 'm) modal_state" where
  "onSuccess gUI data vars s =
     setSubmitting False
       (invalidateQueries ''preview''
         (setQueryData ''userInfo'' (gUI data (formData vars))
           (setStep 2
             (assign_window_accountId (accountId data) s))))"

text \<open>
  Lines 80 to 112. The \<^verbatim>\<open>else\<close> of line 89 belongs to the inner \<^verbatim>\<open>if\<close>, so a value
  that is not an \<^verbatim>\<open>Error\<close> skips both branches. \<^verbatim>\<open>getErrorMessage\<close> is imported from
  the error handler and is a parameter here (\<open>gEM\<close>); the component only tests
  its result for truthiness, and \<open>None\<close> stands for every falsy result.
\<close>

definition onError ::
  "(error_payload \<Rightarrow> react_node option) \<Rightarrow> thrown \<Rightarrow>
   ('a, 'u, 'f, 'm) modal_state \<Rightarrow> ('a, 'u, 'f, 'm) modal_state" where
  "onError gEM err s =
     setSubmitting False
       (case err of
          ErrorInstance m \<Rightarrow>
            (if m = ''email_already_exists'' then setError (Some sign_in_message) s
             else
               (case gEM \<lparr>message = '''', code = m\<rparr> of
                  Some knownErrorMessage \<Rightarrow> setError (Some knownErrorMessage) s
                | None \<Rightarrow> setError (Some unknown_error_message) (captureException err s)))
        | NonError v \<Rightarrow> s)"

text \<open>
  Lines 63 to 67: what \<^verbatim>\<open>onSubmit\<close> does before the registration settles, and then
  the whole submission, the registration settling with a given outcome and nothing
  else touching the state in between. The callbacks get the variables \<^verbatim>\<open>mutate\<close> was
  called with.
\<close>

definition onSubmit_request ::
  "('m, 'z) props_scheme \<Rightarrow> 'f \<Rightarrow> ('a, 'u, 'f, 'm) modal_state \<Rightarrow> ('a, 'u, 'f, 'm) modal_state" where
  "onSubmit_request P values s =
     mutate \<lparr>formData = values, marketplace_var = marketplace P\<rparr>
       (checkoutEvent (GAFriendlyProduct P) ''2''
         (setError None s))"

definition onSubmit ::
  "('m, 'z) props_scheme \<Rightarrow> (error_payload \<Rightarrow> react_node option) \<Rightarrow>
   (('a, 'r) response_scheme \<Rightarrow> 'f \<Rightarrow> 'u) \<Rightarrow> 'f \<Rightarrow> ('a, 'r) response_scheme outcome \<Rightarrow>
   ('a, 'u, 'f, 'm) modal_state \<Rightarrow> ('a, 'u, 'f, 'm) modal_state" where
  "onSubmit P gEM gUI values result s =
     (case result of
        Resolved data \<Rightarrow>
          onSuccess gUI data \<lparr>formData = values, marketplace_var = marketplace P\<rparr>
            (onSubmit_request P values s)
      | Rejected err \<Rightarrow> onError gEM err (onSubmit_request P values s))"

text \<open>Lines 117 to 141: which step is on screen, and the error it is given.\<close>

datatype view =
    StepOne "react_node option"
  | StepTwo "react_node option"

definition render :: "('a, 'u, 'f, 'm) modal_state \<Rightarrow> view" where
  "render s = (if step s = 1 then StepOne (error s) else StepTwo (error s))"

text \<open>The calls a run added to the ones made before it.\<close>

definition new_effects ::
  "('a, 'u, 'f, 'm) modal_state \<Rightarrow> ('a, 'u, 'f, 'm) modal_state \<Rightarrow> ('a, 'u, 'f, 'm) effect list" where
  "new_effects s s' = drop (length (effects s)) (effects s')"

subsection \<open>What can happen to an open modal\<close>








subsection \<open>Reading the list of calls\<close>

fun is_Mutate :: "('a, 'u, 'f, 'm) effect \<Rightarrow> bool" where
  "is_Mutate (Mutate vars) = True"
| "is_Mutate e = False"

fun is_CaptureException :: "('a, 'u, 'f, 'm) effect \<Rightarrow> bool" where
  "is_CaptureException (CaptureException err) = True"
| "is_CaptureException e = False"

fun is_SetSubmitting :: "('a, 'u, 'f, 'm) effect \<Rightarrow> bool" where
  "is_SetSubmitting (SetSubmitting b) = True"
| "is_SetSubmitting e = False"

section \<open>The bundler entry map (src/webpack.config.entry.js)\<close>

text \<open>
  The exported object, key by key in the order written. A value is one string or an
  array of strings.
\<close>

datatype entry_value =
    Single string
  | Multiple "string list"

definition module_exports :: "(string \<times> entry_value) list" where
  "module_exports =
     [(''contributions'', Single ''./static/js/src/contributions.js''),
      (''desktop-statistics'', Single ''./static/js/src/desktop-statistics.js''),
      (''tutorials'',
         Multiple
          [''./static/js/src/tutorial-list.js'',
           ''./static/js/src/tutorial.js'']),
      (''forms'', Single ''./static/js/src/forms.js''),
      (''image-download'', Single ''./static/js/src/image-download.js''),
      (''main'',
         Multiple
          [''url-polyfill'',
           ''url-search-params-polyfill'',
           ''./static/js/src/polyfills.js'',
           ''./static/js/src/contextual-menu.js'',
           ''./static/js/src/dynamic-contact-form.js'',
           ''./static/js/src/core.js'',
           ''./static/js/src/navigation.js'',
           ''./static/js/src/form-validation.js'',
           ''./static/js/src/scratch.js'']),
      (''release-chart'', Single ''./static/js/src/release-chart.js''),
      (''tabotronic'', Single ''./static/js/src/tabotronic.js''),
      (''appliance'', Single ''./static/js/src/appliance.js''),
      (''tco-calculator'', Single ''./static/js/src/tco-calculator.js''),
      (''ua-payment-modal'', Single ''./static/js/src/ua-payment-modal.js''),
      (''sticky-nav'', Single ''./static/js/src/sticky-nav.js''),
      (''imageBuilder'', Single ''./static/js/src/imageBuilder.js''),
      (''cve'', Single ''./static/js/src/cve/cve.js'')]"

fun requests :: "entry_value \<Rightarrow> string list" where
  "requests (Single p) = [p]"
| "requests (Multiple ps) = ps"

text \<open>
  A source file path of this repository: a path relative to the configuration,
  into the JavaScript sources, of a \<^verbatim>\<open>.js\<close> file. A string without the leading
  \<^verbatim>\<open>./\<close> is not a path to the bundler: it names an installed package.
\<close>

definition is_source_file_path :: "string \<Rightarrow> bool" where
  "is_source_file_path p \<longleftrightarrow>
     prefix ''./static/js/src/'' p \<and> suffix ''.js'' p \<and>
     length ''./static/js/src/'' + length ''.js'' < length p"

definition is_package_name :: "string \<Rightarrow> bool" where
  "is_package_name p \<longleftrightarrow> p \<noteq> [] \<and> CHR ''/'' \<notin> set p \<and> hd p \<noteq> CHR ''.''"

fun entry_of_source_file_paths :: "string \<times> entry_value \<Rightarrow> bool" where
  "entry_of_source_file_paths (name, v) \<longleftrightarrow>
     name \<noteq> [] \<and> requests v \<noteq> [] \<and> list_all is_source_file_path (requests v)"

fun entry_of_paths_or_packages :: "string \<times> entry_value \<Rightarrow> bool" where
  "entry_of_paths_or_packages (name, v) \<longleftrightarrow>
     name \<noteq> [] \<and> requests v \<noteq> [] \<and>
     list_all (\<lambda>p. is_source_file_path p \<or> is_package_name p) (requests v)"

definition all_requests :: "(string \<times> entry_value) list \<Rightarrow> string list" where
  "all_requests entries = concat (map (\<lambda>(name, v). requests v) entries)"

section \<open>A concrete modal\<close>

text \<open>
  One purchase to run the definitions on: the form value is the buyer's email
  address, the cached customer information is the pair of account identifier and
  email address, and the classifier knows one error code.
\<close>

definition example_props :: "string props" where
  "example_props =
     \<lparr>product =
        Some \<lparr>product_id = Some ''uai-essential-physical'',
              product_name = Some ''UA Infrastructure Essential'',
              product_price = Some \<lparr>price_value = Some 22500\<rparr>\<rparr>,
      quantity = 1,
      marketplace = ''canonical-ua''\<rparr>"

definition example_getErrorMessage :: "error_payload \<Rightarrow> react_node option" where
  "example_getErrorMessage payload =
     map_of [(''card_declined'', Text ''Your card was declined.'')] (code payload)"

definition example_getUserInfoFromVariables :: "string response \<Rightarrow> string \<Rightarrow> string \<times> string" where
  "example_getUserInfoFromVariables data values = (accountId data, values)"

definition example_state :: "(string, string \<times> string, string, string) modal_state" where
  "example_state =
     \<lparr>error = Some (Text ''Your card was declined.''),
      step = 1,
      window_accountId = '''',
      queryClient = [''preview'' \<mapsto> \<lparr>query_data = ('''', ''''), isInvalidated = False\<rparr>],
      isSubmitting = True,
      effects = []\<rparr>"

section \<open>Properties of the purchase modal\<close>

subsection \<open>What each call leaves behind\<close>

lemma emit_fields [simp]:
  "error (emit e s) = error s"
  "step (emit e s) = step s"
  "window_accountId (emit e s) = window_accountId s"
  "queryClient (emit e s) = queryClient s"
  "isSubmitting (emit e s) = isSubmitting s"
  "effects (emit e s) = effects s @ [e]"
  by (simp_all add: emit_def)

lemma onSubmit_request_fields:
  "error (onSubmit_request P values s) = None"
  "step (onSubmit_request P values s) = step s"
  "window_accountId (onSubmit_request P values s) = window_accountId s"
  "queryClient (onSubmit_request P values s) = queryClient s"
  "isSubmitting (onSubmit_request P values s) = isSubmitting s"
  "effects (onSubmit_request P values s) =
     effects s @
     [SetError None, CheckoutEvent (GAFriendlyProduct P) ''2'',
      Mutate \<lparr>formData = values, marketplace_var = marketplace P\<rparr>]"
  by (simp_all add: onSubmit_request_def mutate_def checkoutEvent_def setError_def)

lemma onSuccess_fields:
  "error (onSuccess gUI data vars s) = error s"
  "step (onSuccess gUI data vars s) = 2"
  "window_accountId (onSuccess gUI data vars s) = accountId data"
  "queryClient (onSuccess gUI data vars s) ''userInfo'' =
     Some \<lparr>query_data = gUI data (formData vars), isInvalidated = False\<rparr>"
  "queryClient (onSuccess gUI data vars s) ''preview'' =
     map_option (\<lambda>q. q\<lparr>isInvalidated := True\<rparr>) (queryClient s ''preview'')"
  "isSubmitting (onSuccess gUI data vars s) = False"
  "effects (onSuccess gUI data vars s) =
     effects s @
     [AssignWindowAccountId (accountId data), SetStep 2,
      SetQueryData ''userInfo'' (gUI data (formData vars)),
      InvalidateQueries ''preview'', SetSubmitting False]"
  by (simp_all add: onSuccess_def setSubmitting_def invalidateQueries_def setQueryData_def
      setStep_def assign_window_accountId_def split: option.split)

lemma onError_fields:
  "step (onError gEM err s) = step s"
  "window_accountId (onError gEM err s) = window_accountId s"
  "queryClient (onError gEM err s) = queryClient s"
  "isSubmitting (onError gEM err s) = False"
  by (simp_all add: onError_def setSubmitting_def setError_def captureException_def
      split: thrown.split option.split)

lemma onError_email_already_exists:
  "error (onError gEM (ErrorInstance ''email_already_exists'') s) = Some sign_in_message"
  "effects (onError gEM (ErrorInstance ''email_already_exists'') s) =
     effects s @ [SetError (Some sign_in_message), SetSubmitting False]"
  by (simp_all add: onError_def setSubmitting_def setError_def)

lemma onError_known:
  assumes "m \<noteq> ''email_already_exists''" and "gEM \<lparr>message = '''', code = m\<rparr> = Some known"
  shows "error (onError gEM (ErrorInstance m) s) = Some known"
    and "effects (onError gEM (ErrorInstance m) s) =
           effects s @ [SetError (Some known), SetSubmitting False]"
  using assms by (simp_all add: onError_def setSubmitting_def setError_def)

lemma onError_unknown:
  assumes "m \<noteq> ''email_already_exists''" and "gEM \<lparr>message = '''', code = m\<rparr> = None"
  shows "error (onError gEM (ErrorInstance m) s) = Some unknown_error_message"
    and "effects (onError gEM (ErrorInstance m) s) =
           effects s @
           [CaptureException (ErrorInstance m), SetError (Some unknown_error_message),
            SetSubmitting False]"
  using assms
  by (simp_all add: onError_def setSubmitting_def setError_def captureException_def)

lemma onError_NonError:
  "error (onError gEM (NonError v) s) = error s"
  "effects (onError gEM (NonError v) s) = effects s @ [SetSubmitting False]"
  by (simp_all add: onError_def setSubmitting_def)

lemma new_effects_append [simp]:
  "effects s' = effects s @ es \<Longrightarrow> new_effects s s' = es"
  by (simp add: new_effects_def)




lemma onSubmit_calls_filtered:
  "filter is_SetSubmitting (new_effects s (onSubmit P gEM gUI values result s)) =
     [SetSubmitting False]"
  "filter is_Mutate (new_effects s (onSubmit P gEM gUI values result s)) =
     [Mutate \<lparr>formData = values, marketplace_var = marketplace P\<rparr>]"
  "isSubmitting (onSubmit P gEM gUI values result s) = False"
proof -
  let ?s' = "onSubmit P gEM gUI values result s"
  let ?goal =
    "filter is_SetSubmitting (new_effects s ?s') = [SetSubmitting False] \<and>
     filter is_Mutate (new_effects s ?s') =
       [Mutate \<lparr>formData = values, marketplace_var = marketplace P\<rparr>] \<and>
     isSubmitting ?s' = False"
  have ?goal
  proof (cases result)
    case (Resolved data)
    then show ?thesis
      by (simp add: onSubmit_def onSuccess_fields onSubmit_request_fields)
  next
    case (Rejected err)
    consider (plain) v where "err = NonError v"
      | (email) "err = ErrorInstance ''email_already_exists''"
      | (known) m k where "err = ErrorInstance m" "m \<noteq> ''email_already_exists''"
          "gEM \<lparr>message = '''', code = m\<rparr> = Some k"
      | (unknown) m where "err = ErrorInstance m" "m \<noteq> ''email_already_exists''"
          "gEM \<lparr>message = '''', code = m\<rparr> = None"
      by (cases err) auto
    then show ?thesis
    proof cases
      case plain
      with Rejected show ?thesis
        by (simp add: onSubmit_def onError_fields onError_NonError onSubmit_request_fields)
    next
      case email
      with Rejected show ?thesis
        by (simp add: onSubmit_def onError_fields onError_email_already_exists
            onSubmit_request_fields)
    next
      case known
      with Rejected show ?thesis
        by (simp add: onSubmit_def onError_fields onError_known onSubmit_request_fields)
    next
      case unknown
      with Rejected show ?thesis
        by (simp add: onSubmit_def onError_fields onError_unknown onSubmit_request_fields)
    qed
  qed
  then show
    "filter is_SetSubmitting (new_effects s ?s') = [SetSubmitting False]"
    "filter is_Mutate (new_effects s ?s') =
       [Mutate \<lparr>formData = values, marketplace_var = marketplace P\<rparr>]"
    "isSubmitting ?s' = False"
    by simp_all
qed

subsection \<open>Opening the modal\<close>

text \<open>
  C6. When the modal opens, \<^verbatim>\<open>step\<close> is 2 if the customer information is there
  and has customer data with a default payment method, and 1 in every other case.
\<close>

theorem initial_step_by_default_payment_method:
  "step (PurchaseModal_mount env userInfo) =
     (if \<exists>u c pm. userInfo = Some u \<and> customerInfo u = Some c \<and> defaultPaymentMethod c = Some pm
      then 2 else 1)"
  by (simp add: PurchaseModal_mount_def initial_step_def default_payment_method_def
      split: option.split)

subsection \<open>Submitting the form\<close>

text \<open>
  C7. Whatever the state a submission starts from, the error is \<^verbatim>\<open>null\<close> when the
  registration is requested, and \<^verbatim>\<open>setError(null)\<close> is among the calls made before
  the call of \<^verbatim>\<open>mutate\<close>. In particular this holds for a submission that follows
  another one, whatever the outcome of that one was.
\<close>

theorem onSubmit_clears_error_first:
  "(let s1 = onSubmit_request P values s in
      error s1 = None \<and>
      SetError None \<in> set (takeWhile (\<lambda>e. \<not> is_Mutate e) (new_effects s s1)) \<and>
      filter is_Mutate (new_effects s s1) \<noteq> []) \<and>
   error (onSubmit_request P values (onSubmit P' gEM gUI values' result s)) = None"
  by (simp add: onSubmit_request_fields)

text \<open>
  C8. Up to the registration request a submission makes three calls, in this order:
  \<^verbatim>\<open>setError(null)\<close>, the checkout event for the product at stage \<^verbatim>\<open>"2"\<close>, and
  \<^verbatim>\<open>mutate\<close> with the submitted form values and the marketplace of the properties.
\<close>

theorem onSubmit_order_of_calls:
  "new_effects s (onSubmit_request P values s) =
     [SetError None,
      CheckoutEvent (GAFriendlyProduct P) ''2'',
      Mutate \<lparr>formData = values, marketplace_var = marketplace P\<rparr>]"
  by (simp add: onSubmit_request_fields)

text \<open>
  C1. Whenever the registration of a submission succeeds, the submission leaves
  \<^verbatim>\<open>window.accountId\<close> equal to the \<^verbatim>\<open>accountId\<close> of the response and \<^verbatim>\<open>step\<close>
  equal to 2, the cache entry \<^verbatim>\<open>"userInfo"\<close> holds what \<^verbatim>\<open>getUserInfoFromVariables\<close>
  makes of the response and the submitted form data, the entry \<^verbatim>\<open>"preview"\<close> (when
  there is one) is marked invalidated, and the submitting flag is cleared. The calls
  made are the eight listed, in that order.
\<close>

theorem onSubmit_registration_succeeds:
  "(let s' = onSubmit P gEM gUI values (Resolved data) s in
      window_accountId s' = accountId data \<and>
      step s' = 2 \<and>
      queryClient s' ''userInfo'' = Some \<lparr>query_data = gUI data values, isInvalidated = False\<rparr> \<and>
      queryClient s' ''preview'' =
        map_option (\<lambda>q. q\<lparr>isInvalidated := True\<rparr>) (queryClient s ''preview'') \<and>
      isSubmitting s' = False \<and>
      new_effects s s' =
        [SetError None, CheckoutEvent (GAFriendlyProduct P) ''2'',
         Mutate \<lparr>formData = values, marketplace_var = marketplace P\<rparr>,
         AssignWindowAccountId (accountId data), SetStep 2,
         SetQueryData ''userInfo'' (gUI data values),
         InvalidateQueries ''preview'', SetSubmitting False])"
  by (simp add: onSubmit_def onSuccess_fields onSubmit_request_fields)

text \<open>
  The example of the specification: the form holds \<^verbatim>\<open>a@b.com\<close>, the registration
  answers with the account \<^verbatim>\<open>acct_42\<close>. A modal that was at step 1 with an error
  and nothing cached for the customer ends at step 2 with no error, the account
  cached and the preview stale.
\<close>

lemma example_successful_registration:
  "onSubmit example_props example_getErrorMessage example_getUserInfoFromVariables
     ''a@b.com'' (Resolved \<lparr>accountId = ''acct_42''\<rparr>) example_state =
   \<lparr>error = None,
    step = 2,
    window_accountId = ''acct_42'',
    queryClient =
      [''preview'' \<mapsto> \<lparr>query_data = ('''', ''''), isInvalidated = True\<rparr>,
       ''userInfo'' \<mapsto> \<lparr>query_data = (''acct_42'', ''a@b.com''), isInvalidated = False\<rparr>],
    isSubmitting = False,
    effects =
      [SetError None,
       CheckoutEvent
         \<lparr>ga_id = Some ''uai-essential-physical'',
          ga_name = Some ''UA Infrastructure Essential'',
          ga_price = Some 225,
          ga_quantity = 1\<rparr> ''2'',
       Mutate \<lparr>formData = ''a@b.com'', marketplace_var = ''canonical-ua''\<rparr>,
       AssignWindowAccountId ''acct_42'',
       SetStep 2,
       SetQueryData ''userInfo'' (''acct_42'', ''a@b.com''),
       InvalidateQueries ''preview'',
       SetSubmitting False]\<rparr>"
  by (simp add: onSubmit_def onSubmit_request_def onSuccess_def example_state_def
      example_props_def example_getUserInfoFromVariables_def GAFriendlyProduct_def
      setSubmitting_def invalidateQueries_def setQueryData_def setStep_def
      assign_window_accountId_def mutate_def checkoutEvent_def setError_def emit_def
      fun_upd_twist)

text \<open>
  C3. A submission whose registration fails with an \<^verbatim>\<open>Error\<close> of message
  \<^verbatim>\<open>email_already_exists\<close> ends with the sign-in message as the error, on screen in
  the step that was shown before, and leaves \<^verbatim>\<open>step\<close> as it was.
\<close>

theorem onSubmit_email_already_exists:
  "(let s' = onSubmit P gEM gUI values (Rejected (ErrorInstance ''email_already_exists'')) s in
      error s' = Some sign_in_message \<and>
      step s' = step s \<and>
      render s' = (if step s = 1 then StepOne (Some sign_in_message)
                   else StepTwo (Some sign_in_message)))"
  by (simp add: onSubmit_def onError_fields onError_email_already_exists
      onSubmit_request_fields render_def)

text \<open>
  C4. A submission whose registration fails with an \<^verbatim>\<open>Error\<close> whose message is not
  \<^verbatim>\<open>email_already_exists\<close> and that the classifier does not know makes exactly one
  report to the monitoring service, of that error, and ends with the generic message
  as the error.
\<close>

theorem onSubmit_unrecognised_error:
  assumes "m \<noteq> ''email_already_exists''" and "gEM \<lparr>message = '''', code = m\<rparr> = None"
  shows "(let s' = onSubmit P gEM gUI values (Rejected (ErrorInstance m)) s in
      filter is_CaptureException (new_effects s s') = [CaptureException (ErrorInstance m)] \<and>
      error s' = Some unknown_error_message)"
  using assms
  by (simp add: onSubmit_def onError_unknown onSubmit_request_fields)

theorem onSubmit_unrecognised_error_witness:
  "''processing_error'' \<noteq> ''email_already_exists'' \<and>
   example_getErrorMessage \<lparr>message = '''', code = ''processing_error''\<rparr> = None \<and>
   filter is_CaptureException
     (new_effects example_state
       (onSubmit example_props example_getErrorMessage example_getUserInfoFromVariables
          ''a@b.com'' (Rejected (ErrorInstance ''processing_error'')) example_state)) =
     [CaptureException (ErrorInstance ''processing_error'')] \<and>
   error (onSubmit example_props example_getErrorMessage example_getUserInfoFromVariables
          ''a@b.com'' (Rejected (ErrorInstance ''processing_error'')) example_state) =
     Some unknown_error_message"
  using onSubmit_unrecognised_error
      [of "''processing_error''" example_getErrorMessage example_props
        example_getUserInfoFromVariables "''a@b.com''" example_state]
  by (simp add: example_getErrorMessage_def Let_def)

text \<open>
  C5. A submission whose registration is rejected with a value that is not an
  \<^verbatim>\<open>Error\<close> ends with no error (the one cleared at its start is never set again), so
  the step on screen shows none; no report is made; and the submitting flag is
  cleared all the same, by the one call of \<^verbatim>\<open>setSubmitting\<close>.
\<close>

theorem onSubmit_rejected_with_non_Error:
  assumes "\<not> instanceof_Error err"
  shows "(let s' = onSubmit P gEM gUI values (Rejected err) s in
      error s' = None \<and>
      render s' = (if step s = 1 then StepOne None else StepTwo None) \<and>
      filter is_CaptureException (new_effects s s') = [] \<and>
      isSubmitting s' = False \<and>
      filter is_SetSubmitting (new_effects s s') = [SetSubmitting False])"
  using assms
  by (cases err)
     (simp_all add: onSubmit_def onError_fields onError_NonError onSubmit_request_fields render_def)

theorem onSubmit_rejected_with_non_Error_witness:
  "\<not> instanceof_Error (NonError (JsString ''email_already_exists'')) \<and>
   error (onSubmit example_props example_getErrorMessage example_getUserInfoFromVariables
          ''a@b.com'' (Rejected (NonError (JsString ''email_already_exists''))) example_state) =
     None \<and>
   render (onSubmit example_props example_getErrorMessage example_getUserInfoFromVariables
          ''a@b.com'' (Rejected (NonError (JsString ''email_already_exists''))) example_state) =
     StepOne None \<and>
   filter is_CaptureException
     (new_effects example_state
       (onSubmit example_props example_getErrorMessage example_getUserInfoFromVariables
          ''a@b.com'' (Rejected (NonError (JsString ''email_already_exists''))) example_state)) =
     [] \<and>
   isSubmitting (onSubmit example_props example_getErrorMessage example_getUserInfoFromVariables
          ''a@b.com'' (Rejected (NonError (JsString ''email_already_exists''))) example_state) =
     False"
  using onSubmit_rejected_with_non_Error
      [of "NonError (JsString ''email_already_exists'')" example_props example_getErrorMessage
        example_getUserInfoFromVariables "''a@b.com''" example_state]
  by (simp add: Let_def example_state_def)

text \<open>
  C9. Whatever the outcome of the registration, a submission calls
  \<^verbatim>\<open>setSubmitting\<close> exactly once, with \<^verbatim>\<open>false\<close>, and ends with the flag cleared; and
  it calls \<^verbatim>\<open>mutate\<close> exactly once: the registration is not requested again.
\<close>

theorem onSubmit_completes_once:
  "(let s' = onSubmit P gEM gUI values result s in
      filter is_SetSubmitting (new_effects s s') = [SetSubmitting False] \<and>
      isSubmitting s' = False \<and>
      filter is_Mutate (new_effects s s') =
        [Mutate \<lparr>formData = values, marketplace_var = marketplace P\<rparr>])"
  by (simp add: onSubmit_calls_filtered)

subsection \<open>How the step changes\<close>



section \<open>Properties of the entry map\<close>

text \<open>
  C10, as stated, fails: the list of \<^verbatim>\<open>main\<close> starts with \<^verbatim>\<open>url-polyfill\<close> and
  \<^verbatim>\<open>url-search-params-polyfill\<close>, which name installed packages and are paths of no
  source file (no leading \<^verbatim>\<open>./\<close>, no directory, no \<^verbatim>\<open>.js\<close>).
\<close>

theorem entry_map_not_only_source_file_paths:
  "map_of module_exports ''main'' =
     Some (Multiple
       [''url-polyfill'',
        ''url-search-params-polyfill'',
        ''./static/js/src/polyfills.js'',
        ''./static/js/src/contextual-menu.js'',
        ''./static/js/src/dynamic-contact-form.js'',
        ''./static/js/src/core.js'',
        ''./static/js/src/navigation.js'',
        ''./static/js/src/form-validation.js'',
        ''./static/js/src/scratch.js'']) \<and>
   \<not> is_source_file_path ''url-polyfill'' \<and>
   \<not> is_source_file_path ''url-search-params-polyfill'' \<and>
   \<not> list_all entry_of_source_file_paths module_exports"
  by (simp add: module_exports_def is_source_file_path_def)

text \<open>
  C10, amended. Every entry of the map associates a bundle name, used once, with
  one request or a list of one or more requests, each a source file path or a
  package name; and the requests that are not source file paths are exactly the two
  package names at the head of \<^verbatim>\<open>main\<close>.
\<close>

theorem entry_map_paths_or_packages:
  "list_all entry_of_paths_or_packages module_exports \<and>
   distinct (map fst module_exports) \<and>
   filter (\<lambda>p. \<not> is_source_file_path p) (all_requests module_exports) =
     [''url-polyfill'', ''url-search-params-polyfill'']"
  by (simp add: module_exports_def all_requests_def is_source_file_path_def is_package_name_def
      suffix_to_prefix)

end
